theory Spec2Isabelle
  imports Main
begin

section \<open>Data model of \<open>docker.go\<close>\<close>

subsection \<open>Errors\<close>

text \<open>
  A Go \<open>error\<close> value is modelled by what a caller can observe of it: its dynamic
  type and its content. \<open>errorString msg\<close> is a \<open>*errors.errorString\<close> with the
  message \<open>msg\<close>, the type of every value made by \<open>errors.New\<close> or by
  \<open>fmt.Errorf\<close> without \<open>%w\<close>, in this package or in any other;
  \<open>NumError fn num err\<close> is a \<open>*strconv.NumError\<close>; \<open>OtherError tname msg\<close> is
  a value of any other type, named by \<open>tname\<close>. The value says nothing of where it was
  made: an error handed back by the docker client is passed on as it is. A nil error is
  \<open>None\<close> of \<open>error option\<close>.
\<close>

datatype num_err = ErrSyntax | ErrRange

datatype error =
    errorString string
  | NumError string string num_err
  | OtherError string string

text \<open>The dynamic type of an error value, which a type switch of the caller sees.\<close>

datatype error_type = errorString_type | NumError_type | Other_type string

fun dynamic_type :: "error \<Rightarrow> error_type" where
  "dynamic_type (errorString msg) = errorString_type"
| "dynamic_type (NumError fn num err) = NumError_type"
| "dynamic_type (OtherError tname msg) = Other_type tname"

text \<open>A call either panics or returns its results.\<close>

datatype 'a outcome = Panics | Returns 'a

subsection \<open>Types of the docker SDK read by the package\<close>

text \<open>
  Modelled from the spec: the types \<open>nat.Port\<close>, \<open>nat.PortBinding\<close>, \<open>nat.PortMap\<close>,
  \<open>nat.PortSet\<close>, \<open>container.Config\<close>, \<open>container.HostConfig\<close>,
  \<open>types.NetworkSettings\<close>, \<open>types.ContainerJSON\<close> and \<open>types.ImagePullOptions\<close>
  are declared in the docker SDK, not in this repository. A \<open>nat.Port\<close> such as
  \<open>80/tcp\<close> is a container-side port number with a protocol suffix, and \<open>Int_port\<close> is its
  numeric value (\<open>key.Int()\<close>); two ports with the same number and different protocols
  are different keys of a port map. A port map sends a container port to its list of
  host-port bindings, whose \<open>HostPort\<close> is a string. Only the fields that \<open>docker.go\<close>
  reads or writes are kept. \<open>Config\<close> and \<open>NetworkSettings\<close> of a \<open>ContainerJSON\<close> are
  pointers in Go, so they are options here (\<open>None\<close> is nil).
\<close>

datatype Port = Port (Int_port: int) (Proto: string)

record PortBinding =
  HostIP :: string
  HostPort :: string

type_synonym PortMap = "Port \<rightharpoonup> PortBinding list"

type_synonym PortSet = "Port set"

record container_Config =
  Image :: string
  Env :: "string list"
  ExposedPorts :: PortSet
  Cmd :: "string list option"

record HostConfig =
  PortBindings :: PortMap

record NetworkSettings =
  IPAddress :: string
  Ports :: PortMap

record ContainerJSON =
  Config :: "container_Config option"
  NetworkSettings :: "NetworkSettings option"

record ImagePullOptions =
  RegistryAuth :: string

subsection \<open>Types declared in \<open>docker.go\<close>\<close>

text \<open>
  \<open>Container\<close> (lines 29-34): the identifier and the cache slot \<open>raw\<close>, a pointer
  that is nil until the first successful inspection.
\<close>

record Container =
  ID :: string
  raw :: "ContainerJSON option"

text \<open>
  \<open>RequestContainer\<close> (lines 20-26). \<open>Env\<close> is a Go map that \<open>RunContainer\<close> ranges
  over once; it is given as the list of its entries in the order of that iteration.
  \<open>WaitingFor\<close> is an interface value, nil (\<open>None\<close>) or a strategy.

  Modelled from the spec: the interface \<open>wait.WaitStrategy\<close> is declared in the
  package \<open>wait\<close> of this repository, which is not among the sources. Its one
  operation is \<open>WaitUntilReady(context, containerHandle) -> Error|nil\<close>; it blocks
  until the condition holds or fails, and returns. The strategy receives the pointer to
  the handle, so here it is a function from the handle to its error (\<open>None\<close> for
  nil) and the handle as the strategy leaves it.
\<close>

record RequestContainer =
  Env :: "(string \<times> string) list"
  ExportedPort :: "string list"
  Cmd :: string
  RegistryCred :: string
  WaitingFor :: "(Container \<Rightarrow> error option \<times> Container) option"

subsection \<open>The external collaborators\<close>

text \<open>
  What the code outside the package answers when it is called: the docker client
  (\<open>client.NewEnvClient\<close>, \<open>cli.ImagePull\<close>, \<open>cli.ContainerCreate\<close>,
  \<open>cli.ContainerStart\<close>, \<open>cli.ContainerInspect\<close>, \<open>cli.ContainerRemove\<close>), the
  port-spec parser \<open>nat.ParsePortSpecs\<close>, and the pull stream read by
  \<open>ioutil.ReadAll\<close>. They hand back error values of any type. A pull stream is known by
  what draining it gives. Every operation of the package takes the collaborators as they
  are during that call, so two calls may see two different engines.
\<close>

datatype ReadCloser = ReadCloser (ReadAll: "error option")

record Engine =
  NewEnvClient :: "error option"
  ParsePortSpecs :: "string list \<Rightarrow> error + (PortSet \<times> PortMap)"
  ImagePull :: "string \<Rightarrow> ImagePullOptions \<Rightarrow> error + ReadCloser"
  ContainerCreate :: "container_Config \<Rightarrow> HostConfig \<Rightarrow> error + string"
  ContainerStart :: "string \<Rightarrow> error option"
  ContainerInspect :: "string \<Rightarrow> error + ContainerJSON"
  ContainerRemove :: "string \<Rightarrow> error option"

text \<open>The calls an operation issued to the docker client and its streams, in order.\<close>

datatype call =
    NewEnvClientCall
  | ImagePullCall string ImagePullOptions
  | ReadAllCall
  | ContainerCreateCall container_Config HostConfig
  | ContainerStartCall string
  | WaitUntilReadyCall Container
  | ContainerInspectCall string
  | ContainerRemoveCall string

section \<open>Standard-library functions used by the package\<close>

text \<open>
  The decimal form of an integer, as \<open>strconv.Itoa\<close> and the verb \<open>%d\<close> write it.
\<close>

definition digit_char :: "nat \<Rightarrow> char" where
  "digit_char d = char_of (48 + d)"

function digits10 :: "nat \<Rightarrow> string" where
  "digits10 n = (if n < 10 then [digit_char n] else digits10 (n div 10) @ [digit_char (n mod 10)])"
  by pat_completeness auto
termination
  by (relation "measure id") auto

declare digits10.simps [simp del]

definition Itoa :: "int \<Rightarrow> string" where
  "Itoa i = (if i < 0 then CHR ''-'' # digits10 (nat (- i)) else digits10 (nat i))"

text \<open>
  \<open>fmt.Sprintf(format, n)\<close> and \<open>fmt.Errorf(format, n)\<close> for a format whose only
  verb is one \<open>%d\<close> and an integer argument: the verb is replaced by the decimal form
  of the argument, and \<open>Errorf\<close> returns the \<open>errorString\<close> with that message.
\<close>

fun Sprintf :: "string \<Rightarrow> int \<Rightarrow> string" where
  "Sprintf (c # d # rest) n =
     (if c = CHR ''%'' \<and> d = CHR ''d'' then Itoa n @ rest else c # Sprintf (d # rest) n)"
| "Sprintf rest n = rest"

definition Errorf :: "string \<Rightarrow> int \<Rightarrow> error" where
  "Errorf format n = errorString (Sprintf format n)"

text \<open>
  \<open>strconv.Atoi\<close> on a platform whose \<open>int\<close> has 64 bits, with the functions of
  \<open>strconv\<close> it is made of, for the base 10.

  \<open>ParseUint(s, 10, 64)\<close> reads the bytes from the left. A byte that is not a
  decimal digit is a syntax error with the value zero; a digit that would take the value
  beyond \<open>maxUint64\<close> is a range error with the value \<open>maxUint64\<close>, returned at
  that digit, whatever follows.
\<close>

definition is_digit :: "char \<Rightarrow> bool" where
  "is_digit c \<longleftrightarrow> (48::nat) \<le> of_char c \<and> of_char c \<le> (57::nat)"

definition maxUint64 :: int where
  "maxUint64 = 2 ^ 64 - 1"

definition cutoff :: int where
  "cutoff = maxUint64 div 10 + 1"

fun ParseUint_loop :: "string \<Rightarrow> int \<Rightarrow> int \<times> num_err option" where
  "ParseUint_loop [] n = (n, None)"
| "ParseUint_loop (c # cs) n =
     (if \<not> is_digit c then (0, Some ErrSyntax)
      else if cutoff \<le> n then (maxUint64, Some ErrRange)
      else (let n1 = n * 10 + (of_char c - 48)
            in if maxUint64 < n1 then (maxUint64, Some ErrRange)
               else ParseUint_loop cs n1))"

definition ParseUint :: "string \<Rightarrow> int \<times> num_err option" where
  "ParseUint s = (if s = [] then (0, Some ErrSyntax) else ParseUint_loop s 0)"

text \<open>
  \<open>ParseInt(s, 10, 0)\<close>: an optional sign, then \<open>ParseUint\<close>. A syntax error gives
  zero; a magnitude beyond the 64-bit range gives the nearest bound and a range error.
\<close>

definition ParseInt :: "string \<Rightarrow> int \<times> num_err option" where
  "ParseInt s0 =
     (if s0 = [] then (0, Some ErrSyntax)
      else
        (let neg = (hd s0 = CHR ''-'');
             s = (if hd s0 = CHR ''+'' \<or> hd s0 = CHR ''-'' then tl s0 else s0)
         in case ParseUint s of
              (un, Some ErrSyntax) \<Rightarrow> (0, Some ErrSyntax)
            | (un, err) \<Rightarrow>
                if \<not> neg \<and> 2 ^ 63 \<le> un then (2 ^ 63 - 1, Some ErrRange)
                else if neg \<and> 2 ^ 63 < un then (- (2 ^ 63), Some ErrRange)
                else (if neg then - un else un, None)))"

text \<open>
  The loop of the fast path of \<open>Atoi\<close>, for strings of fewer than 19 bytes, which
  cannot overflow: \<open>None\<close> at a byte that is not a digit.
\<close>

fun Atoi_loop :: "string \<Rightarrow> int \<Rightarrow> int option" where
  "Atoi_loop [] n = Some n"
| "Atoi_loop (ch # rest) n =
     (if is_digit ch then Atoi_loop rest (n * 10 + (of_char ch - 48)) else None)"

text \<open>
  \<open>Atoi\<close>: the fast path for a string of 1 to 18 bytes, \<open>ParseInt\<close> for every
  other. The \<open>NumError\<close> names \<open>Atoi\<close> and the whole string.
\<close>

definition Atoi :: "string \<Rightarrow> int \<times> error option" where
  "Atoi s0 =
     (if 0 < length s0 \<and> length s0 < 19
      then
        (let s = (if hd s0 = CHR ''-'' \<or> hd s0 = CHR ''+'' then tl s0 else s0)
         in if s = [] then (0, Some (NumError ''Atoi'' s0 ErrSyntax))
            else (case Atoi_loop s 0 of
                    None \<Rightarrow> (0, Some (NumError ''Atoi'' s0 ErrSyntax))
                  | Some n \<Rightarrow> (if hd s0 = CHR ''-'' then - n else n, None)))
      else
        (case ParseInt s0 of
           (i64, None) \<Rightarrow> (i64, None)
         | (i64, Some err) \<Rightarrow> (i64, Some (NumError ''Atoi'' s0 err))))"

text \<open>
  \<open>strings.Split(s, sep)\<close> for a separator of one byte: the pieces of \<open>s\<close> between the
  occurrences of the separator, empty pieces included; a string without the separator
  is its own single piece.
\<close>

fun Split :: "string \<Rightarrow> char \<Rightarrow> string list" where
  "Split [] sep = [[]]"
| "Split (c # cs) sep =
     (if c = sep then [] # Split cs sep
      else (case Split cs sep of
              [] \<Rightarrow> [[c]]
            | piece # pieces \<Rightarrow> (c # piece) # pieces))"

section \<open>The operations of \<open>docker.go\<close>\<close>

text \<open>
  \<open>inspectContainer\<close> (lines 56-70). The result is the returned pair (an error, or
  the snapshot), the handle as the call leaves it, and the calls issued.
\<close>

definition inspectContainer ::
  "Engine \<Rightarrow> Container \<Rightarrow> (error + ContainerJSON) \<times> Container \<times> call list" where
  "inspectContainer eng c =
     (case raw c of
        Some cached \<Rightarrow> (Inr cached, c, [])
      | None \<Rightarrow>
          (case NewEnvClient eng of
             Some err \<Rightarrow> (Inl err, c, [NewEnvClientCall])
           | None \<Rightarrow>
               (case ContainerInspect eng (ID c) of
                  Inl err \<Rightarrow>
                    (Inl err, c, [NewEnvClientCall, ContainerInspectCall (ID c)])
                | Inr inspect \<Rightarrow>
                    (Inr inspect, c\<lparr>raw := Some inspect\<rparr>,
                     [NewEnvClientCall, ContainerInspectCall (ID c)]))))"

text \<open>\<open>LivenessCheckPorts\<close> (lines 36-42). A nil \<open>Config\<close> pointer panics.\<close>

definition LivenessCheckPorts ::
  "Engine \<Rightarrow> Container \<Rightarrow> (PortSet option \<times> error option) outcome \<times> Container \<times> call list" where
  "LivenessCheckPorts eng c =
     (case inspectContainer eng c of
        (Inl err, c', calls) \<Rightarrow> (Returns (None, Some err), c', calls)
      | (Inr inspect, c', calls) \<Rightarrow>
          (case Config inspect of
             None \<Rightarrow> (Panics, c', calls)
           | Some cfg \<Rightarrow> (Returns (Some (ExposedPorts cfg), None), c', calls)))"

text \<open>\<open>Terminate\<close> (lines 45-54); \<open>t.Error\<close> only marks the test as failed.\<close>

definition Terminate :: "Engine \<Rightarrow> Container \<Rightarrow> error option \<times> call list" where
  "Terminate eng c =
     (case NewEnvClient eng of
        Some err \<Rightarrow> (Some err, [NewEnvClientCall])
      | None \<Rightarrow>
          (ContainerRemove eng (ID c),
           [NewEnvClientCall, ContainerRemoveCall (ID c)]))"

text \<open>\<open>GetIPAddress\<close> (lines 73-79). A nil \<open>NetworkSettings\<close> pointer panics.\<close>

definition GetIPAddress ::
  "Engine \<Rightarrow> Container \<Rightarrow> (string \<times> error option) outcome \<times> Container \<times> call list" where
  "GetIPAddress eng c =
     (case inspectContainer eng c of
        (Inl err, c', calls) \<Rightarrow> (Returns ('''', Some err), c', calls)
      | (Inr inspect, c', calls) \<Rightarrow>
          (case NetworkSettings inspect of
             None \<Rightarrow> (Panics, c', calls)
           | Some ns \<Rightarrow> (Returns (IPAddress ns, None), c', calls)))"

text \<open>
  The order in which one \<open>range\<close> statement visits the keys of a Go map is chosen by the
  runtime, and may differ from one \<open>range\<close> to the next; each key is visited once.
  \<open>range_order m ks\<close> says that \<open>ks\<close> is such an order for the map \<open>m\<close>.
\<close>

definition range_order :: "('k \<rightharpoonup> 'v) \<Rightarrow> 'k list \<Rightarrow> bool" where
  "range_order m ks \<longleftrightarrow> distinct ks \<and> set ks = dom m"

text \<open>
  The loop of \<open>GetMappedPort\<close> (lines 88-93) over the keys in the order of the
  iteration, followed by the return of line 94 when the loop ends without a match.
  \<open>val[0]\<close> on an empty list is an index out of range, a panic; it is evaluated for the
  log line before anything is returned. A key that the map does not hold is not visited.
\<close>

fun GetMappedPort_range :: "Port list \<Rightarrow> PortMap \<Rightarrow> int \<Rightarrow> (int \<times> error option) outcome" where
  "GetMappedPort_range [] ports port =
     Returns (0, Some (Errorf ''Unable to find mapped port: %d'' port))"
| "GetMappedPort_range (key # keys) ports port =
     (case ports key of
        None \<Rightarrow> GetMappedPort_range keys ports port
      | Some val \<Rightarrow>
          (if Int_port key = port
           then (case val of
                   [] \<Rightarrow> Panics
                 | binding # _ \<Rightarrow> Returns (Atoi (HostPort binding)))
           else GetMappedPort_range keys ports port))"

text \<open>
  \<open>GetMappedPort\<close> (lines 82-95); \<open>order\<close> is the order in which this call's \<open>range\<close>
  visits the keys of the port map.
\<close>

definition GetMappedPort ::
  "Engine \<Rightarrow> Port list \<Rightarrow> Container \<Rightarrow> int
     \<Rightarrow> (int \<times> error option) outcome \<times> Container \<times> call list" where
  "GetMappedPort eng order c port =
     (case inspectContainer eng c of
        (Inl err, c', calls) \<Rightarrow> (Returns (0, Some err), c', calls)
      | (Inr inspect, c', calls) \<Rightarrow>
          (case NetworkSettings inspect of
             None \<Rightarrow> (Panics, c', calls)
           | Some ns \<Rightarrow> (GetMappedPort_range order (Ports ns) port, c', calls)))"

text \<open>
  The configuration and the pull options that \<open>RunContainer\<close> assembles (lines 110-128).
\<close>

definition dockerInput :: "string \<Rightarrow> RequestContainer \<Rightarrow> PortSet \<Rightarrow> container_Config" where
  "dockerInput containerImage input exposedPorts =
     (let env = map (\<lambda>(envKey, envVar). envKey @ ''='' @ envVar) (RequestContainer.Env input);
          cfg = \<lparr>Image = containerImage, Env = env, ExposedPorts = exposedPorts, Cmd = None\<rparr>
      in if RequestContainer.Cmd input \<noteq> ''''
         then cfg\<lparr>container_Config.Cmd := Some (Split (RequestContainer.Cmd input) CHR '' '')\<rparr>
         else cfg)"

definition pullOpt :: "RequestContainer \<Rightarrow> ImagePullOptions" where
  "pullOpt input =
     (let opt = \<lparr>RegistryAuth = ''''\<rparr>
      in if RegistryCred input \<noteq> '''' then opt\<lparr>RegistryAuth := RegistryCred input\<rparr> else opt)"

text \<open>
  \<open>RunContainer\<close> (lines 98-164): the returned pair (handle, error) and the calls issued.
  The deferred \<open>pull.Close()\<close> has no result and is left out.
\<close>

definition RunContainer ::
  "Engine \<Rightarrow> string \<Rightarrow> RequestContainer \<Rightarrow> (Container option \<times> error option) \<times> call list" where
  "RunContainer eng containerImage input =
     (case NewEnvClient eng of
        Some err \<Rightarrow> ((None, Some err), [NewEnvClientCall])
      | None \<Rightarrow>
     (case ParsePortSpecs eng (ExportedPort input) of
        Inl err \<Rightarrow> ((None, Some err), [NewEnvClientCall])
      | Inr (exposedPorts, portBindings) \<Rightarrow>
     (let cfg = dockerInput containerImage input exposedPorts;
          calls1 = [NewEnvClientCall, ImagePullCall (Image cfg) (pullOpt input)]
      in
      case ImagePull eng (Image cfg) (pullOpt input) of
        Inl err \<Rightarrow> ((None, Some err), calls1)
      | Inr pull \<Rightarrow>
     (case ReadAll pull of
        Some err \<Rightarrow> ((None, Some err), calls1 @ [ReadAllCall])
      | None \<Rightarrow>
     (let hostConfig = \<lparr>PortBindings = portBindings\<rparr>;
          calls2 = calls1 @ [ReadAllCall, ContainerCreateCall cfg hostConfig]
      in
      case ContainerCreate eng cfg hostConfig of
        Inl err \<Rightarrow> ((None, Some err), calls2)
      | Inr respID \<Rightarrow>
     (let calls3 = calls2 @ [ContainerStartCall respID]
      in
      case ContainerStart eng respID of
        Some err \<Rightarrow> ((None, Some err), calls3)
      | None \<Rightarrow>
     (let containerInstance = \<lparr>ID = respID, raw = None\<rparr>
      in
      case WaitingFor input of
        None \<Rightarrow> ((Some containerInstance, None), calls3)
      | Some strategy \<Rightarrow>
          (case strategy containerInstance of
             (Some err, c') \<Rightarrow>
               ((Some c', Some err),
                calls3 @ [WaitUntilReadyCall containerInstance])
           | (None, c') \<Rightarrow>
               ((Some c', None), calls3 @ [WaitUntilReadyCall containerInstance])))))))))"

text \<open>The configurations that reached \<open>cli.ContainerCreate\<close> in a sequence of calls.\<close>

fun created_configs :: "call list \<Rightarrow> container_Config list" where
  "created_configs [] = []"
| "created_configs (ContainerCreateCall cfg hostConfig # calls) = cfg # created_configs calls"
| "created_configs (other # calls) = created_configs calls"

section \<open>The specification's reading of the command line\<close>

text \<open>
  The specification says that the command line is "a single string, tokenized on
  whitespace". \<open>split_on_whitespace\<close> follows these words: the tokens are the maximal
  runs of characters that are not white space (space, tab, line feed, vertical tab, form
  feed, carriage return), as \<open>strings.Fields\<close> gives them. It is compared below with
  what \<open>RunContainer\<close> passes to the engine.
\<close>

definition is_space :: "char \<Rightarrow> bool" where
  "is_space c \<longleftrightarrow> of_char c \<in> {9, 10, 11, 12, 13, 32 :: nat}"

fun tokens :: "string \<Rightarrow> string \<Rightarrow> string list" where
  "tokens cur [] = (if cur = [] then [] else [cur])"
| "tokens cur (c # cs) =
     (if is_space c then (if cur = [] then tokens [] cs else cur # tokens [] cs)
      else tokens (cur @ [c]) cs)"

definition split_on_whitespace :: "string \<Rightarrow> string list" where
  "split_on_whitespace s = tokens [] s"

section \<open>Simulated engines and requests\<close>

text \<open>
  A simulated engine for the scenarios below. It answers every call with success except
  at the step named, creates the container \<open>c0ffee\<close>, parses the one port
  specification \<open>8080:80\<close> (and the empty list) and rejects every other, and reports
  the given snapshot on inspection.
\<close>

datatype step =
  NoStep | ClientStep | PullStep | DrainStep | CreateStep | StartStep | InspectStep

definition binding :: "string \<Rightarrow> PortBinding" where
  "binding hostPort = \<lparr>HostIP = ''0.0.0.0'', HostPort = hostPort\<rparr>"

definition snapshot :: "PortMap \<Rightarrow> ContainerJSON" where
  "snapshot ports =
     \<lparr>Config = Some \<lparr>Image = ''nginx'', Env = [''FOO=bar''],
                      ExposedPorts = dom ports, Cmd = None\<rparr>,
      NetworkSettings = Some \<lparr>IPAddress = ''172.17.0.2'', Ports = ports\<rparr>\<rparr>"

definition simulated_engine :: "step \<Rightarrow> ContainerJSON \<Rightarrow> Engine" where
  "simulated_engine failing inspect =
     \<lparr>NewEnvClient = (if failing = ClientStep then Some (errorString ''cannot create client'') else None),
      ParsePortSpecs =
        (\<lambda>specs. if specs = [] then Inr ({}, Map.empty)
                  else if specs = [''8080:80'']
                  then Inr ({Port 80 ''tcp''}, [Port 80 ''tcp'' \<mapsto> [binding ''8080'']])
                  else Inl (errorString ''Invalid containerPort'')),
      ImagePull =
        (\<lambda>image opt. if failing = PullStep then Inl (errorString ''pull access denied'')
                      else Inr (ReadCloser (if failing = DrainStep
                                            then Some (errorString ''unexpected EOF'') else None))),
      ContainerCreate =
        (\<lambda>cfg hostConfig. if failing = CreateStep then Inl (errorString ''No such image'')
                           else Inr ''c0ffee''),
      ContainerStart =
        (\<lambda>containerID. if failing = StartStep then Some (errorString ''port is already allocated'')
                        else None),
      ContainerInspect =
        (\<lambda>containerID. if failing = InspectStep then Inl (errorString ''No such container'')
                        else Inr inspect),
      ContainerRemove = (\<lambda>containerID. None)\<rparr>"

text \<open>
  An engine whose inspection fails with an error that has the text of the not-found
  error for the port 443.
\<close>

definition mimicking_engine :: Engine where
  "mimicking_engine =
     (simulated_engine NoStep \<lparr>Config = None, NetworkSettings = None\<rparr>)
       \<lparr>ContainerInspect :=
          (\<lambda>containerID. Inl (errorString ''Unable to find mapped port: 443''))\<rparr>"

definition web_ports :: PortMap where
  "web_ports = [Port 80 ''tcp'' \<mapsto> [binding ''8080'']]"

definition web_request :: RequestContainer where
  "web_request =
     \<lparr>Env = [(''FOO'', ''bar'')], ExportedPort = [''8080:80''], Cmd = '''',
      RegistryCred = '''', WaitingFor = None\<rparr>"

definition spaced_command :: string where
  "spaced_command = ''echo  a'' @ [CHR 0x09] @ ''b''"

definition never_ready :: "Container \<Rightarrow> error option \<times> Container" where
  "never_ready c = (Some (errorString ''timed out''), c)"

definition dual_ports :: PortMap where
  "dual_ports = [Port 80 ''tcp'' \<mapsto> [binding ''8080''], Port 80 ''udp'' \<mapsto> [binding ''9090'']]"

definition unpublished_ports :: PortMap where
  "unpublished_ports = [Port 80 ''tcp'' \<mapsto> []]"

definition unnumbered_ports :: PortMap where
  "unnumbered_ports = [Port 80 ''tcp'' \<mapsto> [binding '''']]"

definition twice_bound_ports :: PortMap where
  "twice_bound_ports = [Port 80 ''tcp'' \<mapsto> [binding ''8080'', binding ''8081'']]"

section \<open>Facts about the operations\<close>

subsection \<open>The inspection cache\<close>

lemma inspectContainer_cached:
  "raw c = Some inspect \<Longrightarrow> inspectContainer eng c = (Inr inspect, c, [])"
  by (simp add: inspectContainer_def)

lemma inspectContainer_success:
  "inspectContainer eng c = (Inr inspect, c', calls) \<Longrightarrow>
     raw c' = Some inspect \<and> ID c' = ID c"
  by (auto simp: inspectContainer_def split: option.splits sum.splits)





subsection \<open>The loop over the port map\<close>

lemma GetMappedPort_range_no_match:
  "\<forall>key \<in> dom ports. Int_port key \<noteq> port \<Longrightarrow>
   GetMappedPort_range order ports port =
     Returns (0, Some (Errorf ''Unable to find mapped port: %d'' port))"
  by (induction order) (auto split: option.splits)

lemma GetMappedPort_range_first_match:
  assumes "set order \<subseteq> dom ports"
    and "find (\<lambda>k. Int_port k = port) order = Some key"
  shows "GetMappedPort_range order ports port =
     (case the (ports key) of [] \<Rightarrow> Panics | b # _ \<Rightarrow> Returns (Atoi (HostPort b)))"
  using assms
  by (induction order) (auto split: option.splits if_splits)

lemma find_unique:
  assumes "range_order m order" "key \<in> dom m" "P key"
    and "\<forall>k \<in> dom m. P k \<longrightarrow> k = key"
  shows "find P order = Some key"
proof -
  from assms(1,2) have "key \<in> set order" by (auto simp: range_order_def)
  then obtain k where "find P order = Some k" using assms(3)
    by (cases "find P order") (auto simp: find_None_iff)
  moreover from this have "P k" "k \<in> set order" by (auto simp: find_Some_iff)
  ultimately show ?thesis using assms(1,4) by (auto simp: range_order_def)
qed

lemma GetMappedPort_inspected:
  assumes "inspectContainer eng c = (Inr inspect, c', calls)"
    and "NetworkSettings inspect = Some ns"
  shows "GetMappedPort eng order c port = (GetMappedPort_range order (Ports ns) port, c', calls)"
  using assms by (simp add: GetMappedPort_def)

subsection \<open>Decimal numerals\<close>

text \<open>
  \<open>Atoi\<close> reads back the decimal form of every integer of 64 bits, by the fast path
  and by \<open>ParseInt\<close> alike.
\<close>

lemma is_digit_digit_char: "d < 10 \<Longrightarrow> is_digit (digit_char d)"
  by (simp add: is_digit_def digit_char_def)

lemma of_char_digit_char: "d < 10 \<Longrightarrow> (of_char (digit_char d) :: int) = 48 + int d"
proof -
  assume "d < 10"
  then have "(of_char (digit_char d) :: nat) = 48 + d"
    by (simp add: digit_char_def)
  then have "int (of_char (digit_char d)) = 48 + int d"
    by simp
  then show ?thesis
    by (simp only: of_nat_of_char)
qed

lemma digits10_not_Nil: "digits10 n \<noteq> []"
  by (subst digits10.simps) simp

lemma digits10_digits: "c \<in> set (digits10 n) \<Longrightarrow> is_digit c"
proof (induction n rule: digits10.induct)
  case (1 n)
  show ?case
  proof (cases "n < 10")
    case True
    with "1.prems" show ?thesis
      by (subst (asm) digits10.simps) (simp add: is_digit_digit_char)
  next
    case False
    with "1.prems" have "c \<in> set (digits10 (n div 10)) \<or> c = digit_char (n mod 10)"
      by (subst (asm) digits10.simps) auto
    with False "1.IH" show ?thesis
      by (auto simp: is_digit_digit_char)
  qed
qed

lemma hd_digits10_no_sign:
  "hd (digits10 n) \<noteq> CHR ''-'' \<and> hd (digits10 n) \<noteq> CHR ''+''"
proof -
  have "hd (digits10 n) \<in> set (digits10 n)"
    by (simp add: digits10_not_Nil)
  then have "is_digit (hd (digits10 n))"
    by (rule digits10_digits)
  then show ?thesis
    by (auto simp: is_digit_def)
qed

lemma Atoi_loop_append:
  "Atoi_loop (xs @ ys) n =
     (case Atoi_loop xs n of None \<Rightarrow> None | Some m \<Rightarrow> Atoi_loop ys m)"
  by (induction xs arbitrary: n) simp_all

lemma Atoi_loop_digits10: "Atoi_loop (digits10 n) 0 = Some (int n)"
proof (induction n rule: digits10.induct)
  case (1 n)
  show ?case
  proof (cases "n < 10")
    case True
    then show ?thesis
      by (subst digits10.simps) (simp add: is_digit_digit_char of_char_digit_char)
  next
    case False
    with "1.IH" have "Atoi_loop (digits10 (n div 10)) 0 = Some (int (n div 10))"
      by simp
    moreover have "int (n div 10) * 10 + int (n mod 10) = int n"
      by presburger
    ultimately show ?thesis using False
      by (subst digits10.simps)
         (simp add: Atoi_loop_append is_digit_digit_char of_char_digit_char)
  qed
qed

lemma ParseUint_loop_append:
  "ParseUint_loop (xs @ ys) n =
     (case ParseUint_loop xs n of (m, None) \<Rightarrow> ParseUint_loop ys m | (m, Some e) \<Rightarrow> (m, Some e))"
  by (induction xs arbitrary: n) (simp_all add: Let_def)

lemma ParseUint_loop_digits10:
  "int n \<le> maxUint64 \<Longrightarrow> ParseUint_loop (digits10 n) 0 = (int n, None)"
proof (induction n rule: digits10.induct)
  case (1 n)
  show ?case
  proof (cases "n < 10")
    case True
    then show ?thesis
      by (subst digits10.simps)
         (simp add: is_digit_digit_char of_char_digit_char cutoff_def maxUint64_def)
  next
    case False
    from "1.prems" have small: "int (n div 10) \<le> maxUint64"
      by (simp add: maxUint64_def)
    with False "1.IH" have ih: "ParseUint_loop (digits10 (n div 10)) 0 = (int (n div 10), None)"
      by simp
    from "1.prems" have below: "\<not> cutoff \<le> int (n div 10)"
      by (simp add: cutoff_def maxUint64_def)
    have whole: "int (n div 10) * 10 + int (n mod 10) = int n"
      by presburger
    from False ih below whole "1.prems" show ?thesis
      by (subst digits10.simps)
         (simp add: ParseUint_loop_append is_digit_digit_char of_char_digit_char)
  qed
qed

lemma Atoi_digits10:
  assumes "int n < 2 ^ 63"
  shows "Atoi (digits10 n) = (int n, None)"
proof (cases "length (digits10 n) < 19")
  case True
  then show ?thesis
    by (simp add: Atoi_def digits10_not_Nil hd_digits10_no_sign Atoi_loop_digits10)
next
  case False
  from assms have "int n \<le> maxUint64"
    by (simp add: maxUint64_def)
  then have "ParseUint (digits10 n) = (int n, None)"
    by (simp add: ParseUint_def digits10_not_Nil ParseUint_loop_digits10)
  with assms have "ParseInt (digits10 n) = (int n, None)"
    by (simp add: ParseInt_def digits10_not_Nil hd_digits10_no_sign)
  with False show ?thesis
    by (simp add: Atoi_def)
qed

lemma Atoi_minus_digits10:
  assumes "0 < n" and "int n \<le> 2 ^ 63"
  shows "Atoi (CHR ''-'' # digits10 n) = (- int n, None)"
proof (cases "length (CHR ''-'' # digits10 n) < 19")
  case True
  then show ?thesis
    by (simp add: Atoi_def digits10_not_Nil Atoi_loop_digits10)
next
  case False
  from assms have "int n \<le> maxUint64"
    by (simp add: maxUint64_def)
  then have "ParseUint (digits10 n) = (int n, None)"
    by (simp add: ParseUint_def digits10_not_Nil ParseUint_loop_digits10)
  with assms have "ParseInt (CHR ''-'' # digits10 n) = (- int n, None)"
    by (simp add: ParseInt_def)
  with False show ?thesis
    by (simp add: Atoi_def)
qed

lemma Atoi_Itoa:
  assumes "- (2 ^ 63) \<le> i" and "i < 2 ^ 63"
  shows "Atoi (Itoa i) = (i, None)"
proof (cases "i < 0")
  case True
  with assms have "0 < nat (- i)" "int (nat (- i)) \<le> 2 ^ 63"
    by simp_all
  from Atoi_minus_digits10 [OF this] True show ?thesis
    by (simp add: Itoa_def)
next
  case False
  with assms have "int (nat i) < 2 ^ 63"
    by simp
  from Atoi_digits10 [OF this] False show ?thesis
    by (simp add: Itoa_def)
qed

lemma Atoi_overflow_before_letter:
  "Atoi ''99999999999999999999x'' =
     (2 ^ 63 - 1, Some (NumError ''Atoi'' ''99999999999999999999x'' ErrRange))"
  by (simp add: Atoi_def ParseInt_def ParseUint_def is_digit_def cutoff_def maxUint64_def)

text \<open>
  The fast path of \<open>Atoi\<close> changes no result: for every string \<open>Atoi\<close> returns
  what \<open>ParseInt\<close> returns, with the error renamed.
\<close>

lemma loops_agree:
  "0 \<le> n \<Longrightarrow> n < 10 ^ k \<Longrightarrow> k + length s \<le> 18 \<Longrightarrow>
   ParseUint_loop s n =
     (case Atoi_loop s n of None \<Rightarrow> (0, Some ErrSyntax) | Some v \<Rightarrow> (v, None))
   \<and> (\<forall>v. Atoi_loop s n = Some v \<longrightarrow> 0 \<le> v \<and> v < 10 ^ 18)"
proof (induction s arbitrary: n k)
  case Nil
  have "(10::int) ^ k \<le> 10 ^ 18"
    using Nil.prems(3) by (intro power_increasing) simp_all
  with Nil.prems show ?case
    by simp
next
  case (Cons c s)
  show ?case
  proof (cases "is_digit c")
    case False
    then show ?thesis
      by simp
  next
    case True
    then have "48 \<le> (of_char c :: nat)" "(of_char c :: nat) \<le> 57"
      by (simp_all add: is_digit_def)
    then have "48 \<le> int (of_char c)" "int (of_char c) \<le> 57"
      by simp_all
    then have d: "0 \<le> (of_char c :: int) - 48" "(of_char c :: int) - 48 \<le> 9"
      by (simp_all only: of_nat_of_char)
    from Cons.prems(3) have k: "k \<le> 17"
      by simp
    then have "(10::int) ^ k \<le> 10 ^ 17"
      by (intro power_increasing) simp_all
    with Cons.prems(2) have small: "n < 10 ^ 17"
      by simp
    then have below: "\<not> cutoff \<le> n"
      by (simp add: cutoff_def maxUint64_def)
    from small d have fits: "\<not> maxUint64 < n * 10 + (of_char c - 48)"
      by (simp add: maxUint64_def)
    from Cons.prems(2) d have next_small: "n * 10 + (of_char c - 48) < 10 ^ Suc k"
      by simp
    from Cons.prems(1) d have next_pos: "0 \<le> n * 10 + (of_char c - 48)"
      by simp
    from Cons.prems(3) have len: "Suc k + length s \<le> 18"
      by simp
    from Cons.IH [OF next_pos next_small len] True below fits show ?thesis
      by (simp add: Let_def)
  qed
qed

lemma Atoi_ParseInt:
  "Atoi s0 =
     (case ParseInt s0 of
        (i64, None) \<Rightarrow> (i64, None)
      | (i64, Some err) \<Rightarrow> (i64, Some (NumError ''Atoi'' s0 err)))"
proof (cases "0 < length s0 \<and> length s0 < 19")
  case False
  then show ?thesis
    unfolding Atoi_def by (simp only: if_False simp_thms)
next
  case True
  then have fast: "Atoi s0 =
        (let s = (if hd s0 = CHR ''-'' \<or> hd s0 = CHR ''+'' then tl s0 else s0)
         in if s = [] then (0, Some (NumError ''Atoi'' s0 ErrSyntax))
            else (case Atoi_loop s 0 of
                    None \<Rightarrow> (0, Some (NumError ''Atoi'' s0 ErrSyntax))
                  | Some n \<Rightarrow> (if hd s0 = CHR ''-'' then - n else n, None)))"
    unfolding Atoi_def by (simp only: if_True simp_thms)
  define s where "s = (if hd s0 = CHR ''-'' \<or> hd s0 = CHR ''+'' then tl s0 else s0)"
  from True have ne: "s0 \<noteq> []"
    by auto
  from True have len: "0 + length s \<le> 18"
    by (auto simp: s_def)
  have agree: "ParseUint_loop s 0 =
     (case Atoi_loop s 0 of None \<Rightarrow> (0, Some ErrSyntax) | Some v \<Rightarrow> (v, None))"
    and bound: "\<forall>v. Atoi_loop s 0 = Some v \<longrightarrow> 0 \<le> v \<and> v < 10 ^ 18"
    using loops_agree [of 0 0 s] len by simp_all
  show ?thesis
  proof (cases "s = []")
    case True
    with \<open>0 < length s0 \<and> length s0 < 19\<close> ne show ?thesis
      by (auto simp: fast ParseInt_def ParseUint_def s_def Let_def)
  next
    case False
    show ?thesis
    proof (cases "Atoi_loop s 0")
      case None
      with agree False \<open>0 < length s0 \<and> length s0 < 19\<close> ne show ?thesis
        by (auto simp: fast ParseInt_def ParseUint_def s_def Let_def)
    next
      case (Some v)
      with bound have "0 \<le> v" "v < 2 ^ 63"
        by auto
      with Some agree False \<open>0 < length s0 \<and> length s0 < 19\<close> ne show ?thesis
        by (auto simp: fast ParseInt_def ParseUint_def s_def Let_def)
    qed
  qed
qed

subsection \<open>The assembled configuration\<close>

lemma Image_dockerInput [simp]: "Image (dockerInput containerImage input exposedPorts) = containerImage"
  by (simp add: dockerInput_def Let_def)

lemma Cmd_dockerInput:
  "container_Config.Cmd (dockerInput containerImage input exposedPorts) =
     (if RequestContainer.Cmd input = [] then None
      else Some (Split (RequestContainer.Cmd input) CHR '' ''))"
  by (simp add: dockerInput_def Let_def)

subsection \<open>The simulated engine\<close>

lemma inspect_simulated:
  "inspectContainer (simulated_engine NoStep s) \<lparr>ID = ''c0ffee'', raw = None\<rparr> =
     (Inr s, \<lparr>ID = ''c0ffee'', raw = Some s\<rparr>,
      [NewEnvClientCall, ContainerInspectCall ''c0ffee''])"
  by (simp add: inspectContainer_def simulated_engine_def)

lemma inspect_simulated_failure:
  "inspectContainer (simulated_engine InspectStep s) \<lparr>ID = ''c0ffee'', raw = None\<rparr> =
     (Inl (errorString ''No such container''), \<lparr>ID = ''c0ffee'', raw = None\<rparr>,
      [NewEnvClientCall, ContainerInspectCall ''c0ffee''])"
  by (simp add: inspectContainer_def simulated_engine_def)

lemma NetworkSettings_snapshot:
  "NetworkSettings (snapshot ports) = Some \<lparr>IPAddress = ''172.17.0.2'', Ports = ports\<rparr>"
  by (simp add: snapshot_def)

lemma Atoi_8080: "Atoi ''8080'' = (8080, None)"
  by (simp add: Atoi_def is_digit_def)

lemma Atoi_9090: "Atoi ''9090'' = (9090, None)"
  by (simp add: Atoi_def is_digit_def)

lemma Atoi_empty: "Atoi '''' = (0, Some (NumError ''Atoi'' '''' ErrSyntax))"
  by (simp add: Atoi_def ParseInt_def)

lemma digit_char_simps:
  "digit_char 0 = CHR ''0''" "digit_char 1 = CHR ''1''" "digit_char 2 = CHR ''2''"
  "digit_char 3 = CHR ''3''" "digit_char 4 = CHR ''4''" "digit_char 5 = CHR ''5''"
  "digit_char 6 = CHR ''6''" "digit_char 7 = CHR ''7''" "digit_char 8 = CHR ''8''"
  "digit_char 9 = CHR ''9''"
  by code_simp+

lemma Errorf_443:
  "Errorf ''Unable to find mapped port: %d'' 443 =
     errorString ''Unable to find mapped port: 443''"
  by (simp add: Errorf_def Itoa_def digits10.simps digit_char_simps)

lemma inspect_mimicking:
  "inspectContainer mimicking_engine \<lparr>ID = ''c0ffee'', raw = None\<rparr> =
     (Inl (errorString ''Unable to find mapped port: 443''),
      \<lparr>ID = ''c0ffee'', raw = None\<rparr>,
      [NewEnvClientCall, ContainerInspectCall ''c0ffee''])"
  by (simp add: inspectContainer_def mimicking_engine_def simulated_engine_def)

lemma RunContainer_web:
  "RunContainer (simulated_engine NoStep (snapshot web_ports)) ''nginx'' web_request =
     ((Some \<lparr>ID = ''c0ffee'', raw = None\<rparr>, None),
      [NewEnvClientCall, ImagePullCall ''nginx'' \<lparr>RegistryAuth = ''''\<rparr>, ReadAllCall,
       ContainerCreateCall
         \<lparr>Image = ''nginx'', Env = [''FOO=bar''], ExposedPorts = {Port 80 ''tcp''}, Cmd = None\<rparr>
         \<lparr>PortBindings = web_ports\<rparr>,
       ContainerStartCall ''c0ffee''])"
  by (simp add: RunContainer_def simulated_engine_def web_request_def dockerInput_def
      pullOpt_def web_ports_def)

lemma RunContainer_echo:
  "RunContainer (simulated_engine NoStep (snapshot web_ports)) ''nginx''
       (web_request\<lparr>Cmd := ''echo hi''\<rparr>) =
     ((Some \<lparr>ID = ''c0ffee'', raw = None\<rparr>, None),
      [NewEnvClientCall, ImagePullCall ''nginx'' \<lparr>RegistryAuth = ''''\<rparr>, ReadAllCall,
       ContainerCreateCall
         \<lparr>Image = ''nginx'', Env = [''FOO=bar''], ExposedPorts = {Port 80 ''tcp''},
          Cmd = Some [''echo'', ''hi'']\<rparr>
         \<lparr>PortBindings = web_ports\<rparr>,
       ContainerStartCall ''c0ffee''])"
  by (simp add: RunContainer_def simulated_engine_def web_request_def dockerInput_def
      pullOpt_def web_ports_def)

section \<open>The claims\<close>

subsection \<open>Results of RunContainer\<close>

text \<open>
  C1: \<open>RunContainer\<close> returns a nil handle together with the error of the first step
  that fails, when that step is the construction of the client, the parsing of the port
  specifications, the image pull, the draining of the pull stream, the creation or the
  start of the container. When all of these succeed and the readiness strategy of the
  request fails, it returns the handle (as the strategy left it) together with the
  strategy's error.
\<close>

theorem RunContainer_failure_results:
  "(NewEnvClient eng = Some e \<longrightarrow>
      fst (RunContainer eng containerImage input) = (None, Some e))
   \<and> (NewEnvClient eng = None \<longrightarrow>
     (ParsePortSpecs eng (ExportedPort input) = Inl e \<longrightarrow>
        fst (RunContainer eng containerImage input) = (None, Some e))
   \<and> (ParsePortSpecs eng (ExportedPort input) = Inr (exposedPorts, portBindings) \<longrightarrow>
     (ImagePull eng containerImage (pullOpt input) = Inl e \<longrightarrow>
        fst (RunContainer eng containerImage input) = (None, Some e))
   \<and> (ImagePull eng containerImage (pullOpt input) = Inr pull \<longrightarrow>
     (ReadAll pull = Some e \<longrightarrow>
        fst (RunContainer eng containerImage input) = (None, Some e))
   \<and> (ReadAll pull = None \<longrightarrow>
     (ContainerCreate eng (dockerInput containerImage input exposedPorts)
          \<lparr>PortBindings = portBindings\<rparr> = Inl e \<longrightarrow>
        fst (RunContainer eng containerImage input) = (None, Some e))
   \<and> (ContainerCreate eng (dockerInput containerImage input exposedPorts)
          \<lparr>PortBindings = portBindings\<rparr> = Inr respID \<longrightarrow>
     (ContainerStart eng respID = Some e \<longrightarrow>
        fst (RunContainer eng containerImage input) = (None, Some e))
   \<and> (ContainerStart eng respID = None \<and> WaitingFor input = Some strategy
        \<and> strategy \<lparr>ID = respID, raw = None\<rparr> = (Some e, c') \<longrightarrow>
        fst (RunContainer eng containerImage input) = (Some c', Some e)))))))"
  by (simp add: RunContainer_def Let_def)

theorem RunContainer_failure_results_witness:
  "fst (RunContainer (simulated_engine ClientStep (snapshot web_ports)) ''nginx'' web_request) =
     (None, Some (errorString ''cannot create client''))
   \<and> fst (RunContainer (simulated_engine NoStep (snapshot web_ports)) ''nginx''
       (web_request\<lparr>ExportedPort := [''eighty'']\<rparr>)) =
     (None, Some (errorString ''Invalid containerPort''))
   \<and> fst (RunContainer (simulated_engine PullStep (snapshot web_ports)) ''nginx'' web_request) =
     (None, Some (errorString ''pull access denied''))
   \<and> fst (RunContainer (simulated_engine DrainStep (snapshot web_ports)) ''nginx'' web_request) =
     (None, Some (errorString ''unexpected EOF''))
   \<and> fst (RunContainer (simulated_engine CreateStep (snapshot web_ports)) ''nginx'' web_request) =
     (None, Some (errorString ''No such image''))
   \<and> fst (RunContainer (simulated_engine StartStep (snapshot web_ports)) ''nginx'' web_request) =
     (None, Some (errorString ''port is already allocated''))
   \<and> fst (RunContainer (simulated_engine NoStep (snapshot web_ports)) ''nginx''
       (web_request\<lparr>WaitingFor := Some never_ready\<rparr>)) =
     (Some \<lparr>ID = ''c0ffee'', raw = None\<rparr>, Some (errorString ''timed out''))"
proof -
  have client: "fst (RunContainer (simulated_engine ClientStep (snapshot web_ports))
       ''nginx'' web_request) = (None, Some (errorString ''cannot create client''))"
    using RunContainer_failure_results
      [where eng = "simulated_engine ClientStep (snapshot web_ports)"
         and e = "errorString ''cannot create client''" and containerImage = "''nginx''"
         and input = web_request]
    by (simp add: simulated_engine_def)
  have parse: "fst (RunContainer (simulated_engine NoStep (snapshot web_ports)) ''nginx''
       (web_request\<lparr>ExportedPort := [''eighty'']\<rparr>)) =
     (None, Some (errorString ''Invalid containerPort''))"
    using RunContainer_failure_results
      [where eng = "simulated_engine NoStep (snapshot web_ports)"
         and e = "errorString ''Invalid containerPort''" and containerImage = "''nginx''"
         and input = "web_request\<lparr>ExportedPort := [''eighty'']\<rparr>"]
    by (simp add: simulated_engine_def)
  have pull: "fst (RunContainer (simulated_engine PullStep (snapshot web_ports))
       ''nginx'' web_request) = (None, Some (errorString ''pull access denied''))"
    using RunContainer_failure_results
      [where eng = "simulated_engine PullStep (snapshot web_ports)"
         and e = "errorString ''pull access denied''" and containerImage = "''nginx''"
         and input = web_request and exposedPorts = "{Port 80 ''tcp''}"
         and portBindings = web_ports]
    by (simp add: simulated_engine_def web_request_def web_ports_def)
  have drain: "fst (RunContainer (simulated_engine DrainStep (snapshot web_ports))
       ''nginx'' web_request) = (None, Some (errorString ''unexpected EOF''))"
    using RunContainer_failure_results
      [where eng = "simulated_engine DrainStep (snapshot web_ports)"
         and e = "errorString ''unexpected EOF''" and containerImage = "''nginx''"
         and input = web_request and exposedPorts = "{Port 80 ''tcp''}"
         and portBindings = web_ports and pull = "ReadCloser (Some (errorString ''unexpected EOF''))"]
    by (simp add: simulated_engine_def web_request_def web_ports_def)
  have create: "fst (RunContainer (simulated_engine CreateStep (snapshot web_ports))
       ''nginx'' web_request) = (None, Some (errorString ''No such image''))"
    using RunContainer_failure_results
      [where eng = "simulated_engine CreateStep (snapshot web_ports)"
         and e = "errorString ''No such image''" and containerImage = "''nginx''"
         and input = web_request and exposedPorts = "{Port 80 ''tcp''}"
         and portBindings = web_ports and pull = "ReadCloser None"]
    by (simp add: simulated_engine_def web_request_def web_ports_def)
  have start: "fst (RunContainer (simulated_engine StartStep (snapshot web_ports))
       ''nginx'' web_request) = (None, Some (errorString ''port is already allocated''))"
    using RunContainer_failure_results
      [where eng = "simulated_engine StartStep (snapshot web_ports)"
         and e = "errorString ''port is already allocated''" and containerImage = "''nginx''"
         and input = web_request and exposedPorts = "{Port 80 ''tcp''}"
         and portBindings = web_ports and pull = "ReadCloser None" and respID = "''c0ffee''"]
    by (simp add: simulated_engine_def web_request_def web_ports_def)
  have wait: "fst (RunContainer (simulated_engine NoStep (snapshot web_ports)) ''nginx''
       (web_request\<lparr>WaitingFor := Some never_ready\<rparr>)) =
     (Some \<lparr>ID = ''c0ffee'', raw = None\<rparr>, Some (errorString ''timed out''))"
    using RunContainer_failure_results
      [where eng = "simulated_engine NoStep (snapshot web_ports)"
         and e = "errorString ''timed out''" and containerImage = "''nginx''"
         and input = "web_request\<lparr>WaitingFor := Some never_ready\<rparr>"
         and exposedPorts = "{Port 80 ''tcp''}"
         and portBindings = web_ports and pull = "ReadCloser None" and respID = "''c0ffee''"
         and strategy = never_ready and c' = "\<lparr>ID = ''c0ffee'', raw = None\<rparr>"]
    by (simp add: simulated_engine_def web_request_def web_ports_def never_ready_def)
  from client parse pull drain create start wait show ?thesis
    by simp
qed

text \<open>
  C5, as stated, fails: for the non-empty command \<open>echo\<close>, two spaces, \<open>a\<close>, a tab,
  \<open>b\<close>, the command that reaches \<open>cli.ContainerCreate\<close> is the three pieces
  \<open>echo\<close>, the empty string and \<open>a\<close>-tab-\<open>b\<close>, while splitting on white space
  gives the tokens \<open>echo\<close>, \<open>a\<close>, \<open>b\<close>.
\<close>

theorem RunContainer_Cmd_whitespace_counterexample:
  "RequestContainer.Cmd (web_request\<lparr>Cmd := spaced_command\<rparr>) \<noteq> ''''
   \<and> map container_Config.Cmd (created_configs (snd (RunContainer
         (simulated_engine NoStep (snapshot web_ports)) ''nginx''
         (web_request\<lparr>Cmd := spaced_command\<rparr>)))) =
       [Some [''echo'', '''', ''a'' @ [CHR 0x09] @ ''b'']]
   \<and> split_on_whitespace spaced_command = [''echo'', ''a'', ''b'']
   \<and> [''echo'', '''', ''a'' @ [CHR 0x09] @ ''b''] \<noteq> split_on_whitespace spaced_command"
  by (simp add: RunContainer_def simulated_engine_def web_request_def dockerInput_def
      pullOpt_def spaced_command_def split_on_whitespace_def is_space_def)

text \<open>
  C5 (amended): every configuration that \<open>RunContainer\<close> passes to
  \<open>cli.ContainerCreate\<close> carries no command (nil) when the command string of the
  request is empty, and otherwise exactly \<open>strings.Split(Cmd, " ")\<close>: the pieces
  between the single space characters, so that adjacent spaces give empty pieces and
  other white space does not separate.
\<close>

theorem RunContainer_Cmd_split:
  assumes "cfg \<in> set (created_configs (snd (RunContainer eng containerImage input)))"
  shows "container_Config.Cmd cfg =
     (if RequestContainer.Cmd input = '''' then None
      else Some (Split (RequestContainer.Cmd input) CHR '' ''))"
  using assms
  by (auto simp: RunContainer_def Let_def Cmd_dockerInput
      split: option.splits sum.splits prod.splits if_splits)

theorem RunContainer_Cmd_split_witness:
  "\<lparr>Image = ''nginx'', Env = [''FOO=bar''], ExposedPorts = {Port 80 ''tcp''}, Cmd = None\<rparr>
     \<in> set (created_configs (snd (RunContainer
           (simulated_engine NoStep (snapshot web_ports)) ''nginx'' web_request)))
   \<and> RequestContainer.Cmd web_request = ''''
   \<and> \<lparr>Image = ''nginx'', Env = [''FOO=bar''], ExposedPorts = {Port 80 ''tcp''},
       Cmd = Some [''echo'', ''hi'']\<rparr>
     \<in> set (created_configs (snd (RunContainer
           (simulated_engine NoStep (snapshot web_ports)) ''nginx''
           (web_request\<lparr>Cmd := ''echo hi''\<rparr>))))
   \<and> Split ''echo hi'' CHR '' '' = [''echo'', ''hi'']"
proof -
  have h1: "\<lparr>Image = ''nginx'', Env = [''FOO=bar''], ExposedPorts = {Port 80 ''tcp''},
       Cmd = None\<rparr>
     \<in> set (created_configs (snd (RunContainer
           (simulated_engine NoStep (snapshot web_ports)) ''nginx'' web_request)))"
    by (simp add: RunContainer_web)
  have h2: "\<lparr>Image = ''nginx'', Env = [''FOO=bar''], ExposedPorts = {Port 80 ''tcp''},
       Cmd = Some [''echo'', ''hi'']\<rparr>
     \<in> set (created_configs (snd (RunContainer
           (simulated_engine NoStep (snapshot web_ports)) ''nginx''
           (web_request\<lparr>Cmd := ''echo hi''\<rparr>))))"
    by (simp add: RunContainer_echo)
  from RunContainer_Cmd_split [OF h1] have e1: "RequestContainer.Cmd web_request = ''''"
    by (simp split: if_splits)
  from RunContainer_Cmd_split [OF h2] have e2: "Split ''echo hi'' CHR '' '' = [''echo'', ''hi'']"
    by (simp split: if_splits)
  from h1 h2 e1 e2 show ?thesis by simp
qed

text \<open>
  C6, as stated, fails: the client is constructed before the port specifications are
  parsed (lines 99-107), so with a malformed specification and a client that cannot be
  constructed \<open>RunContainer\<close> returns the client's error, not the parse error.
\<close>

theorem RunContainer_malformed_port_counterexample:
  "ParsePortSpecs (simulated_engine ClientStep (snapshot web_ports))
       (ExportedPort (web_request\<lparr>ExportedPort := [''eighty'']\<rparr>)) =
     Inl (errorString ''Invalid containerPort'')
   \<and> RunContainer (simulated_engine ClientStep (snapshot web_ports)) ''nginx''
       (web_request\<lparr>ExportedPort := [''eighty'']\<rparr>) =
     ((None, Some (errorString ''cannot create client'')), [NewEnvClientCall])
   \<and> errorString ''cannot create client'' \<noteq> errorString ''Invalid containerPort''"
  by (simp add: RunContainer_def simulated_engine_def web_request_def)

text \<open>
  C6 (amended): for every request with a port specification that
  \<open>nat.ParsePortSpecs\<close> rejects, \<open>RunContainer\<close> returns a nil handle and an error,
  and the only call it issues is the construction of the client: no image pull, no
  container create, no container start. The error is the parse error when the client
  could be constructed, and the client's error otherwise.
\<close>

theorem RunContainer_malformed_port:
  assumes "ParsePortSpecs eng (ExportedPort input) = Inl e"
  shows "RunContainer eng containerImage input =
     ((None, Some (case NewEnvClient eng of
                   None \<Rightarrow> e | Some clientErr \<Rightarrow> clientErr)),
      [NewEnvClientCall])"
  using assms by (simp add: RunContainer_def split: option.splits)

theorem RunContainer_malformed_port_witness:
  "ParsePortSpecs (simulated_engine NoStep (snapshot web_ports))
       (ExportedPort (web_request\<lparr>ExportedPort := [''eighty'']\<rparr>)) =
     Inl (errorString ''Invalid containerPort'')
   \<and> RunContainer (simulated_engine NoStep (snapshot web_ports)) ''nginx''
       (web_request\<lparr>ExportedPort := [''eighty'']\<rparr>) =
     ((None, Some (errorString ''Invalid containerPort'')), [NewEnvClientCall])"
proof -
  have h: "ParsePortSpecs (simulated_engine NoStep (snapshot web_ports))
       (ExportedPort (web_request\<lparr>ExportedPort := [''eighty'']\<rparr>)) =
     Inl (errorString ''Invalid containerPort'')"
    by (simp add: simulated_engine_def)
  have "NewEnvClient (simulated_engine NoStep (snapshot web_ports)) = None"
    by (simp add: simulated_engine_def)
  with h RunContainer_malformed_port [OF h, of "''nginx''"] show ?thesis
    by simp
qed

subsection \<open>Mapped ports\<close>

text \<open>
  C2, as stated, fails: a port map may hold an entry whose port number equals the
  requested port and yet \<open>GetMappedPort\<close> returns no host port. For the entry
  \<open>80/tcp\<close> with an empty binding list (a port exposed and not published) the call
  panics; for a first binding whose \<open>HostPort\<close> is the empty string it returns zero
  and the \<open>NumError\<close> of \<open>strconv.Atoi\<close>.
\<close>

theorem GetMappedPort_present_port_counterexample:
  "unpublished_ports (Port 80 ''tcp'') = Some []
   \<and> Int_port (Port 80 ''tcp'') = 80
   \<and> fst (GetMappedPort (simulated_engine NoStep (snapshot unpublished_ports))
        [Port 80 ''tcp''] \<lparr>ID = ''c0ffee'', raw = None\<rparr> 80) = Panics
   \<and> unnumbered_ports (Port 80 ''tcp'') = Some [binding '''']
   \<and> fst (GetMappedPort (simulated_engine NoStep (snapshot unnumbered_ports))
        [Port 80 ''tcp''] \<lparr>ID = ''c0ffee'', raw = None\<rparr> 80) =
       Returns (0, Some (NumError ''Atoi'' '''' ErrSyntax))"
  by (simp add: GetMappedPort_def inspect_simulated NetworkSettings_snapshot
      unpublished_ports_def unnumbered_ports_def binding_def Atoi_empty)

text \<open>
  C2 (amended): for every inspection snapshot and every order of the iteration, if the
  entry met first among those whose port number equals the requested port (whatever
  its protocol suffix) has a non-empty binding list, and \<open>strconv.Atoi\<close> reads the
  \<open>HostPort\<close> of its first binding as the integer \<open>hostPort\<close>, then
  \<open>GetMappedPort\<close> returns \<open>hostPort\<close> and a nil error. In the scenario of the
  specification (\<open>ExportedPort = ["8080:80"]\<close>, an engine that reports the binding)
  \<open>GetMappedPort(ctx, 80)\<close> returns 8080: this is the witness.
\<close>

theorem GetMappedPort_present_port:
  assumes "inspectContainer eng c = (Inr inspect, c', calls)"
    and "NetworkSettings inspect = Some ns"
    and "range_order (Ports ns) order"
    and "find (\<lambda>k. Int_port k = port) order = Some key"
    and "Ports ns key = Some (first # others)"
    and "Atoi (HostPort first) = (hostPort, None)"
  shows "GetMappedPort eng order c port = (Returns (hostPort, None), c', calls)"
proof -
  from assms(3) have "set order \<subseteq> dom (Ports ns)"
    by (simp add: range_order_def)
  from GetMappedPort_range_first_match [OF this assms(4)] assms(5,6)
  have "GetMappedPort_range order (Ports ns) port = Returns (hostPort, None)"
    by simp
  with GetMappedPort_inspected [OF assms(1,2)] show ?thesis
    by simp
qed

theorem GetMappedPort_present_port_witness:
  "fst (RunContainer (simulated_engine NoStep (snapshot web_ports)) ''nginx'' web_request) =
     (Some \<lparr>ID = ''c0ffee'', raw = None\<rparr>, None)
   \<and> range_order web_ports [Port 80 ''tcp'']
   \<and> find (\<lambda>k. Int_port k = 80) [Port 80 ''tcp''] = Some (Port 80 ''tcp'')
   \<and> web_ports (Port 80 ''tcp'') = Some [binding ''8080'']
   \<and> Atoi (HostPort (binding ''8080'')) = (8080, None)
   \<and> GetMappedPort (simulated_engine NoStep (snapshot web_ports)) [Port 80 ''tcp'']
       \<lparr>ID = ''c0ffee'', raw = None\<rparr> 80 =
       (Returns (8080, None), \<lparr>ID = ''c0ffee'', raw = Some (snapshot web_ports)\<rparr>,
        [NewEnvClientCall, ContainerInspectCall ''c0ffee''])"
proof -
  have h3: "range_order
      (Ports \<lparr>IPAddress = ''172.17.0.2'', Ports = web_ports\<rparr>) [Port 80 ''tcp'']"
    by (simp add: range_order_def web_ports_def)
  have h4: "find (\<lambda>k. Int_port k = 80) [Port 80 ''tcp''] = Some (Port 80 ''tcp'')"
    by simp
  have h5: "Ports \<lparr>IPAddress = ''172.17.0.2'', Ports = web_ports\<rparr>
      (Port 80 ''tcp'') = Some (binding ''8080'' # [])"
    by (simp add: web_ports_def)
  have h6: "Atoi (HostPort (binding ''8080'')) = (8080, None)"
    by (simp add: binding_def Atoi_8080)
  from h3 h4 h5 h6 RunContainer_web
    GetMappedPort_present_port [OF inspect_simulated NetworkSettings_snapshot h3 h4 h5 h6]
  show ?thesis by simp
qed

text \<open>
  C3, as stated, fails: the not-found error has no kind of its own. Line 94 makes it
  with \<open>fmt.Errorf\<close>, so it is a \<open>*errors.errorString\<close>, and an inspection failure
  is passed on as the client made it, which may be a value of the same type: the
  failure \<open>No such container\<close> of the simulated engine has the dynamic type of the
  not-found error, and an engine whose inspection fails with the text of the not-found
  error makes \<open>GetMappedPort\<close> return exactly what it returns for an absent port.
\<close>

theorem GetMappedPort_absent_port_counterexample:
  "dom web_ports = {Port 80 ''tcp''}
   \<and> fst (GetMappedPort (simulated_engine NoStep (snapshot web_ports)) [Port 80 ''tcp'']
        \<lparr>ID = ''c0ffee'', raw = None\<rparr> 443) =
       Returns (0, Some (errorString ''Unable to find mapped port: 443''))
   \<and> fst (GetMappedPort (simulated_engine InspectStep (snapshot web_ports)) [Port 80 ''tcp'']
        \<lparr>ID = ''c0ffee'', raw = None\<rparr> 443) =
       Returns (0, Some (errorString ''No such container''))
   \<and> dynamic_type (errorString ''No such container'') =
       dynamic_type (errorString ''Unable to find mapped port: 443'')
   \<and> inspectContainer mimicking_engine \<lparr>ID = ''c0ffee'', raw = None\<rparr> =
       (Inl (errorString ''Unable to find mapped port: 443''),
        \<lparr>ID = ''c0ffee'', raw = None\<rparr>,
        [NewEnvClientCall, ContainerInspectCall ''c0ffee''])
   \<and> fst (GetMappedPort mimicking_engine [Port 80 ''tcp'']
        \<lparr>ID = ''c0ffee'', raw = None\<rparr> 443) =
       Returns (0, Some (errorString ''Unable to find mapped port: 443''))"
  by (simp add: GetMappedPort_def inspect_simulated inspect_simulated_failure
      inspect_mimicking NetworkSettings_snapshot web_ports_def Errorf_443)

text \<open>
  C3 (amended): when the inspected port map holds no entry whose port number equals the
  requested port, \<open>GetMappedPort\<close> returns zero and the error made by
  \<open>fmt.Errorf("Unable to find mapped port: %d", port)\<close>, whatever the order of the
  iteration; every later call on the handle returns the same, from the cache and without
  a call to the engine. That error is a plain \<open>*errors.errorString\<close> whose message is
  the text \<open>Unable to find mapped port: \<close> followed by the port in decimal; it has no
  type of its own, and an inspection failure is passed on unchanged, so only the message
  tells the two apart.
\<close>

theorem GetMappedPort_absent_port:
  assumes "inspectContainer eng c = (Inr inspect, c', calls)"
    and "NetworkSettings inspect = Some ns"
    and "\<forall>key \<in> dom (Ports ns). Int_port key \<noteq> port"
  shows "GetMappedPort eng order c port =
       (Returns (0, Some (Errorf ''Unable to find mapped port: %d'' port)), c', calls)
   \<and> GetMappedPort eng' order' c' port =
       (Returns (0, Some (Errorf ''Unable to find mapped port: %d'' port)), c', [])
   \<and> Errorf ''Unable to find mapped port: %d'' port =
       errorString (''Unable to find mapped port: '' @ Itoa port)
   \<and> dynamic_type (Errorf ''Unable to find mapped port: %d'' port) = errorString_type
   \<and> (\<forall>eng3 order3 c3 err c3' calls3.
        inspectContainer eng3 c3 = (Inl err, c3', calls3) \<longrightarrow>
          GetMappedPort eng3 order3 c3 port = (Returns (0, Some err), c3', calls3))"
proof (intro conjI allI impI)
  show "GetMappedPort eng order c port =
       (Returns (0, Some (Errorf ''Unable to find mapped port: %d'' port)), c', calls)"
    using GetMappedPort_inspected [OF assms(1,2)] GetMappedPort_range_no_match [OF assms(3)]
    by simp
next
  from inspectContainer_success [OF assms(1)] have "raw c' = Some inspect"
    by simp
  from GetMappedPort_inspected [OF inspectContainer_cached [OF this] assms(2)]
    GetMappedPort_range_no_match [OF assms(3)]
  show "GetMappedPort eng' order' c' port =
       (Returns (0, Some (Errorf ''Unable to find mapped port: %d'' port)), c', [])"
    by simp
next
  show "Errorf ''Unable to find mapped port: %d'' port =
       errorString (''Unable to find mapped port: '' @ Itoa port)"
    by (simp add: Errorf_def)
next
  show "dynamic_type (Errorf ''Unable to find mapped port: %d'' port) = errorString_type"
    by (simp add: Errorf_def)
next
  fix eng3 order3 c3 err c3' calls3
  assume "inspectContainer eng3 c3 = (Inl err, c3', calls3)"
  then show "GetMappedPort eng3 order3 c3 port = (Returns (0, Some err), c3', calls3)"
    by (simp add: GetMappedPort_def)
qed

theorem GetMappedPort_absent_port_witness:
  "dom web_ports = {Port 80 ''tcp''}
   \<and> GetMappedPort (simulated_engine NoStep (snapshot web_ports)) [Port 80 ''tcp'']
       \<lparr>ID = ''c0ffee'', raw = None\<rparr> 443 =
       (Returns (0, Some (errorString ''Unable to find mapped port: 443'')),
        \<lparr>ID = ''c0ffee'', raw = Some (snapshot web_ports)\<rparr>,
        [NewEnvClientCall, ContainerInspectCall ''c0ffee''])
   \<and> GetMappedPort (simulated_engine InspectStep (snapshot dual_ports)) [Port 80 ''tcp'']
       \<lparr>ID = ''c0ffee'', raw = Some (snapshot web_ports)\<rparr> 443 =
       (Returns (0, Some (errorString ''Unable to find mapped port: 443'')),
        \<lparr>ID = ''c0ffee'', raw = Some (snapshot web_ports)\<rparr>, [])
   \<and> GetMappedPort (simulated_engine InspectStep (snapshot web_ports)) [Port 80 ''tcp'']
       \<lparr>ID = ''c0ffee'', raw = None\<rparr> 443 =
       (Returns (0, Some (errorString ''No such container'')),
        \<lparr>ID = ''c0ffee'', raw = None\<rparr>,
        [NewEnvClientCall, ContainerInspectCall ''c0ffee''])"
proof -
  have h3: "\<forall>key \<in> dom (Ports \<lparr>IPAddress = ''172.17.0.2'', Ports = web_ports\<rparr>).
      Int_port key \<noteq> 443"
    by (simp add: web_ports_def)
  note fact = GetMappedPort_absent_port [OF inspect_simulated NetworkSettings_snapshot h3,
      where eng' = "simulated_engine InspectStep (snapshot dual_ports)"
        and order = "[Port 80 ''tcp'']" and order' = "[Port 80 ''tcp'']"]
  from conjunct1 [OF fact]
  have a: "GetMappedPort (simulated_engine NoStep (snapshot web_ports))
       [Port 80 ''tcp''] \<lparr>ID = ''c0ffee'', raw = None\<rparr> 443 =
       (Returns (0, Some (errorString ''Unable to find mapped port: 443'')),
        \<lparr>ID = ''c0ffee'', raw = Some (snapshot web_ports)\<rparr>,
        [NewEnvClientCall, ContainerInspectCall ''c0ffee''])"
    by (simp only: Errorf_443)
  from conjunct1 [OF conjunct2 [OF fact]]
  have b: "GetMappedPort (simulated_engine InspectStep (snapshot dual_ports))
       [Port 80 ''tcp''] \<lparr>ID = ''c0ffee'', raw = Some (snapshot web_ports)\<rparr> 443 =
       (Returns (0, Some (errorString ''Unable to find mapped port: 443'')),
        \<lparr>ID = ''c0ffee'', raw = Some (snapshot web_ports)\<rparr>, [])"
    by (simp only: Errorf_443)
  from conjunct2 [OF conjunct2 [OF conjunct2 [OF conjunct2 [OF fact]]]]
  have "\<forall>eng3 order3 c3 err c3' calls3.
        inspectContainer eng3 c3 = (Inl err, c3', calls3) \<longrightarrow>
          GetMappedPort eng3 order3 c3 443 = (Returns (0, Some err), c3', calls3)" .
  from this inspect_simulated_failure [of "snapshot web_ports"]
  have c: "GetMappedPort (simulated_engine InspectStep (snapshot web_ports)) [Port 80 ''tcp'']
       \<lparr>ID = ''c0ffee'', raw = None\<rparr> 443 =
       (Returns (0, Some (errorString ''No such container'')),
        \<lparr>ID = ''c0ffee'', raw = None\<rparr>,
        [NewEnvClientCall, ContainerInspectCall ''c0ffee''])"
    by blast
  have d: "dom web_ports = {Port 80 ''tcp''}"
    by (simp add: web_ports_def)
  from d a b c show ?thesis by simp
qed

text \<open>
  C8: \<open>GetMappedPort\<close> reads \<open>val[0]\<close> of the matching entry without checking that
  the binding list is non-empty. Whenever the entry that the iteration meets first among
  those whose port number equals the requested port has an empty binding list, the call
  panics (index out of range) instead of returning an error. The engine reports such an
  entry for a port that is exposed and not published.
\<close>

theorem GetMappedPort_empty_binding_panics:
  assumes "inspectContainer eng c = (Inr inspect, c', calls)"
    and "NetworkSettings inspect = Some ns"
    and "range_order (Ports ns) order"
    and "find (\<lambda>k. Int_port k = port) order = Some key"
    and "Ports ns key = Some []"
  shows "GetMappedPort eng order c port = (Panics, c', calls)"
proof -
  from assms(3) have "set order \<subseteq> dom (Ports ns)"
    by (simp add: range_order_def)
  from GetMappedPort_range_first_match [OF this assms(4)] assms(5)
  have "GetMappedPort_range order (Ports ns) port = Panics"
    by simp
  with GetMappedPort_inspected [OF assms(1,2)] show ?thesis
    by simp
qed

theorem GetMappedPort_empty_binding_panics_witness:
  "inspectContainer (simulated_engine NoStep (snapshot unpublished_ports))
     \<lparr>ID = ''c0ffee'', raw = None\<rparr> =
     (Inr (snapshot unpublished_ports),
      \<lparr>ID = ''c0ffee'', raw = Some (snapshot unpublished_ports)\<rparr>,
      [NewEnvClientCall, ContainerInspectCall ''c0ffee''])
   \<and> NetworkSettings (snapshot unpublished_ports) =
       Some \<lparr>IPAddress = ''172.17.0.2'', Ports = unpublished_ports\<rparr>
   \<and> range_order unpublished_ports [Port 80 ''tcp'']
   \<and> find (\<lambda>k. Int_port k = 80) [Port 80 ''tcp''] = Some (Port 80 ''tcp'')
   \<and> unpublished_ports (Port 80 ''tcp'') = Some []
   \<and> GetMappedPort (simulated_engine NoStep (snapshot unpublished_ports)) [Port 80 ''tcp'']
       \<lparr>ID = ''c0ffee'', raw = None\<rparr> 80 =
       (Panics, \<lparr>ID = ''c0ffee'', raw = Some (snapshot unpublished_ports)\<rparr>,
        [NewEnvClientCall, ContainerInspectCall ''c0ffee''])"
proof -
  have h1: "inspectContainer (simulated_engine NoStep (snapshot unpublished_ports))
     \<lparr>ID = ''c0ffee'', raw = None\<rparr> =
     (Inr (snapshot unpublished_ports),
      \<lparr>ID = ''c0ffee'', raw = Some (snapshot unpublished_ports)\<rparr>,
      [NewEnvClientCall, ContainerInspectCall ''c0ffee''])"
    by (simp add: inspectContainer_def simulated_engine_def)
  have h2: "NetworkSettings (snapshot unpublished_ports) =
       Some \<lparr>IPAddress = ''172.17.0.2'', Ports = unpublished_ports\<rparr>"
    by (simp add: snapshot_def)
  have h3: "range_order
      (Ports \<lparr>IPAddress = ''172.17.0.2'', Ports = unpublished_ports\<rparr>) [Port 80 ''tcp'']"
    by (simp add: range_order_def unpublished_ports_def)
  have h4: "find (\<lambda>k. Int_port k = 80) [Port 80 ''tcp''] = Some (Port 80 ''tcp'')"
    by simp
  have h5: "Ports \<lparr>IPAddress = ''172.17.0.2'', Ports = unpublished_ports\<rparr>
      (Port 80 ''tcp'') = Some []"
    by (simp add: unpublished_ports_def)
  from h1 h2 h3 h4 h5 GetMappedPort_empty_binding_panics [OF h1 h2 h3 h4 h5]
  show ?thesis by simp
qed

text \<open>
  C10: when the binding list of the matching entry (the one the iteration meets first)
  holds more than one binding, \<open>GetMappedPort\<close> returns what \<open>strconv.Atoi\<close> makes
  of the \<open>HostPort\<close> of the first binding, whatever the further bindings \<open>others\<close>
  are. When that \<open>HostPort\<close> is the decimal form of a number within the range of
  \<open>int\<close>, the call returns that number and a nil error.
\<close>

theorem GetMappedPort_first_binding:
  assumes "inspectContainer eng c = (Inr inspect, c', calls)"
    and "NetworkSettings inspect = Some ns"
    and "range_order (Ports ns) order"
    and "find (\<lambda>k. Int_port k = port) order = Some key"
    and "Ports ns key = Some (first # others)"
    and "others \<noteq> []"
  shows "GetMappedPort eng order c port = (Returns (Atoi (HostPort first)), c', calls)
   \<and> (- (2 ^ 63) \<le> hostPort \<and> hostPort < 2 ^ 63 \<and> HostPort first = Itoa hostPort \<longrightarrow>
        GetMappedPort eng order c port = (Returns (hostPort, None), c', calls))"
proof -
  from assms(3) have "set order \<subseteq> dom (Ports ns)"
    by (simp add: range_order_def)
  from GetMappedPort_range_first_match [OF this assms(4)] assms(5)
  have "GetMappedPort_range order (Ports ns) port = Returns (Atoi (HostPort first))"
    by simp
  with GetMappedPort_inspected [OF assms(1,2)]
  have general: "GetMappedPort eng order c port = (Returns (Atoi (HostPort first)), c', calls)"
    by simp
  have "GetMappedPort eng order c port = (Returns (hostPort, None), c', calls)"
    if "- (2 ^ 63) \<le> hostPort" and "hostPort < 2 ^ 63" and "HostPort first = Itoa hostPort"
    using general that Atoi_Itoa [of hostPort] by simp
  with general show ?thesis
    by blast
qed

theorem GetMappedPort_first_binding_witness:
  "range_order twice_bound_ports [Port 80 ''tcp'']
   \<and> find (\<lambda>k. Int_port k = 80) [Port 80 ''tcp''] = Some (Port 80 ''tcp'')
   \<and> twice_bound_ports (Port 80 ''tcp'') = Some [binding ''8080'', binding ''8081'']
   \<and> [binding ''8081''] \<noteq> []
   \<and> HostPort (binding ''8080'') = Itoa 8080
   \<and> GetMappedPort (simulated_engine NoStep (snapshot twice_bound_ports)) [Port 80 ''tcp'']
       \<lparr>ID = ''c0ffee'', raw = None\<rparr> 80 =
       (Returns (8080, None), \<lparr>ID = ''c0ffee'', raw = Some (snapshot twice_bound_ports)\<rparr>,
        [NewEnvClientCall, ContainerInspectCall ''c0ffee''])"
proof -
  have h3: "range_order
      (Ports \<lparr>IPAddress = ''172.17.0.2'', Ports = twice_bound_ports\<rparr>) [Port 80 ''tcp'']"
    by (simp add: range_order_def twice_bound_ports_def)
  have h4: "find (\<lambda>k. Int_port k = 80) [Port 80 ''tcp''] = Some (Port 80 ''tcp'')"
    by simp
  have h5: "Ports \<lparr>IPAddress = ''172.17.0.2'', Ports = twice_bound_ports\<rparr>
      (Port 80 ''tcp'') = Some (binding ''8080'' # [binding ''8081''])"
    by (simp add: twice_bound_ports_def)
  have h6: "[binding ''8081''] \<noteq> []"
    by simp
  have h7: "HostPort (binding ''8080'') = Itoa 8080"
    by (simp add: binding_def Itoa_def digits10.simps digit_char_simps)
  have range: "- (2 ^ 63) \<le> (8080 :: int) \<and> (8080 :: int) < 2 ^ 63"
    by simp
  from conjunct2
    [OF GetMappedPort_first_binding
      [OF inspect_simulated NetworkSettings_snapshot h3 h4 h5 h6, where hostPort = 8080]]
    range h7
  have "GetMappedPort (simulated_engine NoStep (snapshot twice_bound_ports)) [Port 80 ''tcp'']
       \<lparr>ID = ''c0ffee'', raw = None\<rparr> 80 =
       (Returns (8080, None), \<lparr>ID = ''c0ffee'', raw = Some (snapshot twice_bound_ports)\<rparr>,
        [NewEnvClientCall, ContainerInspectCall ''c0ffee''])"
    by blast
  with h3 h4 h5 h6 h7 show ?thesis
    by simp
qed

subsection \<open>The inspection cache across calls\<close>

text \<open>
  C4, as stated, fails: the cache is reused, but a second call may return another host
  port. With \<open>80/tcp\<close> bound to 8080 and \<open>80/udp\<close> bound to 9090 both keys have
  the port number 80; the first call, whose iteration meets \<open>80/tcp\<close> first, returns
  8080, and a second call on the cached snapshot, whose iteration meets \<open>80/udp\<close>
  first, returns 9090.
\<close>

theorem GetMappedPort_repeated_counterexample:
  "range_order dual_ports [Port 80 ''tcp'', Port 80 ''udp'']
   \<and> range_order dual_ports [Port 80 ''udp'', Port 80 ''tcp'']
   \<and> GetMappedPort (simulated_engine NoStep (snapshot dual_ports))
        [Port 80 ''tcp'', Port 80 ''udp''] \<lparr>ID = ''c0ffee'', raw = None\<rparr> 80 =
       (Returns (8080, None), \<lparr>ID = ''c0ffee'', raw = Some (snapshot dual_ports)\<rparr>,
        [NewEnvClientCall, ContainerInspectCall ''c0ffee''])
   \<and> GetMappedPort (simulated_engine NoStep (snapshot dual_ports))
        [Port 80 ''udp'', Port 80 ''tcp'']
        \<lparr>ID = ''c0ffee'', raw = Some (snapshot dual_ports)\<rparr> 80 =
       (Returns (9090, None), \<lparr>ID = ''c0ffee'', raw = Some (snapshot dual_ports)\<rparr>, [])
   \<and> (8080 :: int) \<noteq> 9090"
proof -
  have r: "range_order dual_ports [Port 80 ''tcp'', Port 80 ''udp'']"
    "range_order dual_ports [Port 80 ''udp'', Port 80 ''tcp'']"
    by (auto simp: range_order_def dual_ports_def)
  have a: "GetMappedPort (simulated_engine NoStep (snapshot dual_ports))
        [Port 80 ''tcp'', Port 80 ''udp''] \<lparr>ID = ''c0ffee'', raw = None\<rparr> 80 =
       (Returns (8080, None), \<lparr>ID = ''c0ffee'', raw = Some (snapshot dual_ports)\<rparr>,
        [NewEnvClientCall, ContainerInspectCall ''c0ffee''])"
    by (simp add: GetMappedPort_def inspect_simulated NetworkSettings_snapshot
        dual_ports_def binding_def Atoi_8080)
  have b: "GetMappedPort (simulated_engine NoStep (snapshot dual_ports))
        [Port 80 ''udp'', Port 80 ''tcp'']
        \<lparr>ID = ''c0ffee'', raw = Some (snapshot dual_ports)\<rparr> 80 =
       (Returns (9090, None), \<lparr>ID = ''c0ffee'', raw = Some (snapshot dual_ports)\<rparr>, [])"
    by (simp add: GetMappedPort_def inspectContainer_def NetworkSettings_snapshot
        dual_ports_def binding_def Atoi_9090)
  from r a b show ?thesis by simp
qed

text \<open>
  C4 (amended): a successful inspection leaves its snapshot in the cache slot of the
  handle, and every later accessor call (\<open>inspectContainer\<close>, \<open>GetIPAddress\<close>,
  \<open>LivenessCheckPorts\<close>, \<open>GetMappedPort\<close>) reads that snapshot, issues no call to
  the engine and leaves the handle as it is, whatever the engine has become. Hence
  \<open>GetMappedPort\<close> called a second time with the same port returns the result of the
  first call, provided that the cached port map holds at most one entry whose port
  number equals the requested port (the order of a map iteration is not fixed).
\<close>

theorem GetMappedPort_repeated_cached:
  assumes "inspectContainer eng c = (Inr inspect, c', calls)"
    and "NetworkSettings inspect = Some ns"
    and "range_order (Ports ns) order"
    and "range_order (Ports ns) order'"
    and "\<forall>k \<in> dom (Ports ns). \<forall>k' \<in> dom (Ports ns).
           Int_port k = port \<and> Int_port k' = port \<longrightarrow> k = k'"
  shows "raw c' = Some inspect
   \<and> inspectContainer eng' c' = (Inr inspect, c', [])
   \<and> snd (GetIPAddress eng' c') = (c', [])
   \<and> snd (LivenessCheckPorts eng' c') = (c', [])
   \<and> GetMappedPort eng' order' c' port = (fst (GetMappedPort eng order c port), c', [])"
proof -
  from inspectContainer_success [OF assms(1)] have populated: "raw c' = Some inspect"
    by simp
  have cached: "inspectContainer eng' c' = (Inr inspect, c', [])"
    by (rule inspectContainer_cached [OF populated])
  have same: "GetMappedPort_range order' (Ports ns) port =
      GetMappedPort_range order (Ports ns) port"
  proof (cases "\<exists>key \<in> dom (Ports ns). Int_port key = port")
    case True
    then obtain key where key: "key \<in> dom (Ports ns)" "Int_port key = port"
      by blast
    with assms(5) have uniq: "\<forall>k \<in> dom (Ports ns). Int_port k = port \<longrightarrow> k = key"
      by blast
    have f1: "find (\<lambda>k. Int_port k = port) order = Some key"
      by (rule find_unique [OF assms(3) key(1) key(2) uniq])
    have f2: "find (\<lambda>k. Int_port k = port) order' = Some key"
      by (rule find_unique [OF assms(4) key(1) key(2) uniq])
    from assms(3) have s1: "set order \<subseteq> dom (Ports ns)"
      by (simp add: range_order_def)
    from assms(4) have s2: "set order' \<subseteq> dom (Ports ns)"
      by (simp add: range_order_def)
    from GetMappedPort_range_first_match [OF s1 f1]
      GetMappedPort_range_first_match [OF s2 f2]
    show ?thesis by simp
  next
    case False
    then have "\<forall>key \<in> dom (Ports ns). Int_port key \<noteq> port"
      by blast
    then show ?thesis
      by (simp add: GetMappedPort_range_no_match)
  qed
  have ip: "snd (GetIPAddress eng' c') = (c', [])"
    using cached assms(2) by (simp add: GetIPAddress_def)
  have lp: "snd (LivenessCheckPorts eng' c') = (c', [])"
    using cached by (simp add: LivenessCheckPorts_def split: option.splits)
  have "GetMappedPort eng' order' c' port = (fst (GetMappedPort eng order c port), c', [])"
    using GetMappedPort_inspected [OF cached assms(2)]
      GetMappedPort_inspected [OF assms(1,2)] same
    by simp
  with populated cached ip lp show ?thesis by simp
qed

theorem GetMappedPort_repeated_cached_witness:
  "inspectContainer (simulated_engine NoStep (snapshot web_ports))
       \<lparr>ID = ''c0ffee'', raw = None\<rparr> =
       (Inr (snapshot web_ports), \<lparr>ID = ''c0ffee'', raw = Some (snapshot web_ports)\<rparr>,
        [NewEnvClientCall, ContainerInspectCall ''c0ffee''])
   \<and> range_order web_ports [Port 80 ''tcp'']
   \<and> dom web_ports = {Port 80 ''tcp''}
   \<and> fst (GetMappedPort (simulated_engine NoStep (snapshot web_ports)) [Port 80 ''tcp'']
        \<lparr>ID = ''c0ffee'', raw = None\<rparr> 80) = Returns (8080, None)
   \<and> inspectContainer (simulated_engine InspectStep (snapshot dual_ports))
        \<lparr>ID = ''c0ffee'', raw = Some (snapshot web_ports)\<rparr> =
       (Inr (snapshot web_ports), \<lparr>ID = ''c0ffee'', raw = Some (snapshot web_ports)\<rparr>, [])
   \<and> GetMappedPort (simulated_engine InspectStep (snapshot dual_ports)) [Port 80 ''tcp'']
        \<lparr>ID = ''c0ffee'', raw = Some (snapshot web_ports)\<rparr> 80 =
       (Returns (8080, None), \<lparr>ID = ''c0ffee'', raw = Some (snapshot web_ports)\<rparr>, [])"
proof -
  have h1: "fst (GetMappedPort (simulated_engine NoStep (snapshot web_ports))
       [Port 80 ''tcp''] \<lparr>ID = ''c0ffee'', raw = None\<rparr> 80) = Returns (8080, None)"
    by (simp add: GetMappedPort_def inspect_simulated NetworkSettings_snapshot
        web_ports_def binding_def Atoi_8080)
  have h3: "range_order
      (Ports \<lparr>IPAddress = ''172.17.0.2'', Ports = web_ports\<rparr>) [Port 80 ''tcp'']"
    by (simp add: range_order_def web_ports_def)
  have h5: "\<forall>k \<in> dom (Ports \<lparr>IPAddress = ''172.17.0.2'', Ports = web_ports\<rparr>).
      \<forall>k' \<in> dom (Ports \<lparr>IPAddress = ''172.17.0.2'', Ports = web_ports\<rparr>).
        Int_port k = 80 \<and> Int_port k' = 80 \<longrightarrow> k = k'"
    by (simp add: web_ports_def)
  have d: "dom web_ports = {Port 80 ''tcp''}"
    by (simp add: web_ports_def)
  from h1 h3 d inspect_simulated [of "snapshot web_ports"]
    GetMappedPort_repeated_cached [OF inspect_simulated NetworkSettings_snapshot h3 h3 h5,
      where eng' = "simulated_engine InspectStep (snapshot dual_ports)"]
  show ?thesis by simp
qed



end
